theory Spec2Isabelle
  imports Complex_Main "HOL-Library.Log_Nat"
begin

section \<open>Python values\<close>

text \<open>
  Python's \<open>int\<close> is \<open>int\<close>, a \<open>str\<close> is a \<open>string\<close>, an optional argument whose default
  is \<open>None\<close> is an \<open>option\<close>, and a \<open>dict\<close> whose iteration order matters is an association
  list in insertion order. A Python \<open>float\<close> is the real number it stands for.

  In the predictor the results depend on how a product or a quotient is rounded, since it is
  truncated or rounded to one decimal afterwards: there every float operation rounds its
  exact result to the nearest double (\<open>fl\<close>, ties to the even significand), and a decimal
  literal such as \<open>0.9\<close> is the double \<open>fl 0.9\<close>. Overflow to infinity is not modelled. In
  the categorizer and the analyzer, whose results are compared with thresholds only, the
  operations are the exact ones.
\<close>

datatype py_error = KeyError | ValueError

text \<open>\<open>int(x)\<close> on a float truncates toward zero.\<close>

definition py_int :: "real \<Rightarrow> int" where
  "py_int x = (if 0 \<le> x then \<lfloor>x\<rfloor> else \<lceil>x\<rceil>)"

text \<open>The integer closest to \<open>x\<close>; of two equally close integers, the even one.\<close>

definition round_half_even :: "real \<Rightarrow> int" where
  "round_half_even x =
     (let f = \<lfloor>x\<rfloor>; d = x - of_int f
      in if d < 1 / 2 then f else if 1 / 2 < d then f + 1 else if even f then f else f + 1)"

text \<open>
  Binary64 rounding. \<open>float_exponent x\<close> is the \<open>e\<close> with \<open>2 ^ e \<le> \<bar>x\<bar> < 2 ^ (e + 1)\<close>; a double
  in that range is a multiple of \<open>2 ^ (e - 52)\<close>, and below \<open>2 ^ -1022\<close> the doubles are the
  multiples of \<open>2 ^ -1074\<close>. \<open>fl x\<close> is the multiple closest to \<open>x\<close>.
\<close>

definition pow2 :: "int \<Rightarrow> real" where
  "pow2 k = (if 0 \<le> k then 2 ^ nat k else 1 / 2 ^ nat (- k))"

definition float_exponent :: "real \<Rightarrow> int" where
  "float_exponent x =
     (if 1 \<le> \<bar>x\<bar> then bitlen \<lfloor>\<bar>x\<bar>\<rfloor> - 1 else - bitlen (\<lceil>1 / \<bar>x\<bar>\<rceil> - 1))"

definition fl :: "real \<Rightarrow> real" where
  "fl x =
     (if x = 0 then 0
      else (let e = max (float_exponent x) (- 1022);
                ulp = pow2 (e - 52)
            in of_int (round_half_even (x / ulp)) * ulp))"

text \<open>Float multiplication and true division: one rounding each.\<close>

definition fmul :: "real \<Rightarrow> real \<Rightarrow> real" where
  "fmul x y = fl (x * y)"

definition fdiv :: "real \<Rightarrow> real \<Rightarrow> real" where
  "fdiv x y = fl (x / y)"

text \<open>
  \<open>round(x, ndigits)\<close> on a float: the multiple of \<open>10 ^ -ndigits\<close> closest to the value of
  \<open>x\<close>, the even one of two equally close multiples, returned as a double.
\<close>

definition py_round :: "real \<Rightarrow> nat \<Rightarrow> real" where
  "py_round x ndigits = fl (of_int (round_half_even (x * 10 ^ ndigits)) / 10 ^ ndigits)"

text \<open>
  A number that is an \<open>int\<close> or a \<open>float\<close>, where the source can meet both. The sum of two
  ints is exact; with a float operand the int is converted to a double and the sum is
  rounded. The true division of two ints rounds the exact quotient; with a float operand it
  is the float division. \<open>round(n, 1)\<close> of an int is the int.
\<close>

datatype py_number = PyInt int | PyFloat real

fun to_float :: "py_number \<Rightarrow> real" where
  "to_float (PyInt i) = fl (of_int i)"
| "to_float (PyFloat x) = x"

fun py_add :: "py_number \<Rightarrow> py_number \<Rightarrow> py_number" where
  "py_add (PyInt a) (PyInt b) = PyInt (a + b)"
| "py_add a b = PyFloat (fl (to_float a + to_float b))"

fun true_divide :: "py_number \<Rightarrow> py_number \<Rightarrow> real" where
  "true_divide (PyInt a) (PyInt b) = fdiv (of_int a) (of_int b)"
| "true_divide a b = fdiv (to_float a) (to_float b)"

fun round_number :: "py_number \<Rightarrow> nat \<Rightarrow> real" where
  "round_number (PyInt i) ndigits = of_int i"
| "round_number (PyFloat x) ndigits = py_round x ndigits"

fun truthy_number :: "py_number \<Rightarrow> bool" where
  "truthy_number (PyInt i) = (i \<noteq> 0)"
| "truthy_number (PyFloat x) = (x \<noteq> 0)"

text \<open>\<open>d.get(k, default)\<close> and \<open>d[k]\<close> on a dictionary kept as an association list.\<close>

definition dict_get :: "('k \<times> 'v) list \<Rightarrow> 'k \<Rightarrow> 'v \<Rightarrow> 'v" where
  "dict_get d k dflt = (case map_of d k of None \<Rightarrow> dflt | Some v \<Rightarrow> v)"

definition dict_item :: "('k \<times> 'v) list \<Rightarrow> 'k \<Rightarrow> py_error + 'v" where
  "dict_item d k = (case map_of d k of None \<Rightarrow> Inl KeyError | Some v \<Rightarrow> Inr v)"

section \<open>Resolution time predictor (src/ai_module/predictor.py)\<close>

text \<open>The two tables built by \<open>ResolutionTimePredictor.__init__\<close>.\<close>

definition category_avg_times :: "(string \<times> int) list" where
  "category_avg_times =
     [(''IT Issues'', 24),
      (''Hostel Management'', 48),
      (''Academics'', 72),
      (''Administration'', 96),
      (''Library'', 48),
      (''Sports & Recreation'', 72),
      (''Other'', 120)]"

definition priority_multipliers :: "(string \<times> real) list" where
  "priority_multipliers = [(''High'', 0.5), (''Medium'', 1.0), (''Low'', 1.5)]"

text \<open>The only mutable attribute of the predictor is its workload factor.\<close>

record ResolutionTimePredictor =
  workload_factor :: real

definition new_predictor :: ResolutionTimePredictor where
  "new_predictor = \<lparr>workload_factor = 1.0\<rparr>"

record prediction =
  hours :: int
  days :: real
  category_avg :: int
  priority_factor :: real
  confidence :: real

text \<open>
  \<open>predict_resolution_time\<close>. The value drawn by \<open>random.uniform(0.8, 1.2)\<close> is the argument
  \<open>variance\<close>; the description is accepted and not used, as in the source. The product
  \<open>base_time * priority_mult * self.workload_factor\<close> is two float multiplications from the
  left, and the variance is a third.
\<close>

definition predict_resolution_time ::
  "ResolutionTimePredictor \<Rightarrow> real \<Rightarrow> string \<Rightarrow> string \<Rightarrow> string option \<Rightarrow> prediction" where
  "predict_resolution_time self variance category priority description =
     (let base_time = dict_get category_avg_times category 72;
          priority_mult = dict_get priority_multipliers priority 1.0;
          predicted_hours = fmul (fmul (of_int base_time) priority_mult) (workload_factor self);
          predicted_hours = py_int (fmul predicted_hours variance);
          predicted_hours = max predicted_hours 1;
          predicted_days = fdiv (of_int predicted_hours) 24
      in \<lparr>hours = predicted_hours,
          days = py_round predicted_days 1,
          category_avg = base_time,
          priority_factor = priority_mult,
          confidence = 0.75\<rparr>)"

text \<open>
  \<open>update_workload_factor\<close> rebinds the attribute; the new predictor state is returned. The
  literals \<open>1.0\<close> and \<open>1.5\<close> are doubles as they stand, \<open>0.9\<close> and \<open>1.2\<close> are not.
\<close>

definition update_workload_factor :: "ResolutionTimePredictor \<Rightarrow> int \<Rightarrow> ResolutionTimePredictor" where
  "update_workload_factor self pending_count =
     (if pending_count < 10 then self\<lparr>workload_factor := fl 0.9\<rparr>
      else if pending_count < 20 then self\<lparr>workload_factor := 1.0\<rparr>
      else if pending_count < 50 then self\<lparr>workload_factor := fl 1.2\<rparr>
      else self\<lparr>workload_factor := 1.5\<rparr>)"

text \<open>
  A caller's session with one predictor: each call either predicts (with the variance the
  random source yields for that call) or updates the workload factor. \<open>run_calls\<close> threads
  the predictor through the calls and collects what the prediction calls returned, in order.
\<close>

datatype predictor_call =
  Predict real string string "string option"
| UpdateWorkload int

fun run_calls ::
  "ResolutionTimePredictor \<Rightarrow> predictor_call list \<Rightarrow> prediction list \<times> ResolutionTimePredictor" where
  "run_calls self [] = ([], self)"
| "run_calls self (Predict v c p d # calls) =
     (let r = predict_resolution_time self v c p d;
          (rs, self') = run_calls self calls
      in (r # rs, self'))"
| "run_calls self (UpdateWorkload n # calls) = run_calls (update_workload_factor self n) calls"

text \<open>
  A record of the complaint history, as \<open>get_category_statistics\<close> reads it: \<open>c.get(key)\<close>
  is \<open>None\<close> for a missing key as well as for a stored \<open>None\<close>. The resolution time is a
  number of hours, an int or a float.
\<close>

record complaint =
  category :: "string option"
  status :: "string option"
  resolution_time :: "py_number option"

text \<open>Truth value of \<open>c.get('resolution_time')\<close>: \<open>None\<close> and zero are false.\<close>

definition truthy_num :: "py_number option \<Rightarrow> bool" where
  "truthy_num v = (case v of None \<Rightarrow> False | Some x \<Rightarrow> truthy_number x)"

text \<open>
  \<open>sum(c['resolution_time'] for c in resolved)\<close>: the values are added to \<open>0\<close> one by one from
  the left (floats rounded at each step, as CPython adds them up to version 3.11); a missing
  value cannot be added up.
\<close>

fun sum_from :: "py_number \<Rightarrow> complaint list \<Rightarrow> py_error + py_number" where
  "sum_from acc [] = Inr acc"
| "sum_from acc (c # cs) =
     (case resolution_time c of
        None \<Rightarrow> Inl KeyError
      | Some x \<Rightarrow> sum_from (py_add acc x) cs)"

definition sum_resolution_time :: "complaint list \<Rightarrow> py_error + py_number" where
  "sum_resolution_time cs = sum_from (PyInt 0) cs"

record category_stats =
  total_complaints :: int
  resolved :: int
  avg_resolution_hours :: real
  avg_resolution_days :: real

definition category_complaints_of :: "complaint list \<Rightarrow> string \<Rightarrow> complaint list" where
  "category_complaints_of complaints_data cat =
     filter (\<lambda>c. category c = Some cat) complaints_data"

definition resolved_of :: "complaint list \<Rightarrow> complaint list" where
  "resolved_of category_complaints =
     filter (\<lambda>c. status c = Some ''Resolved'' \<and> truthy_num (resolution_time c)) category_complaints"

text \<open>
  The body of the loop of \<open>get_category_statistics\<close> for one category. The average is the
  true division of the sum by the length, a float; the baseline is an int.
\<close>

definition stats_for :: "complaint list \<Rightarrow> string \<Rightarrow> py_error + category_stats" where
  "stats_for complaints_data cat =
     (let category_complaints = category_complaints_of complaints_data cat
      in if category_complaints \<noteq> [] then
           (let resolved_list = resolved_of category_complaints
            in case (if resolved_list \<noteq> []
                     then (case sum_resolution_time resolved_list of
                             Inl e \<Rightarrow> Inl e
                           | Inr s \<Rightarrow>
                               Inr (PyFloat (true_divide s (PyInt (int (length resolved_list))))))
                     else (case dict_item category_avg_times cat of
                             Inl e \<Rightarrow> Inl e
                           | Inr b \<Rightarrow> Inr (PyInt b))) of
                 Inl e \<Rightarrow> Inl e
               | Inr avg_time \<Rightarrow>
                   Inr \<lparr>total_complaints = int (length category_complaints),
                        resolved = int (length resolved_list),
                        avg_resolution_hours = round_number avg_time 1,
                        avg_resolution_days = py_round (true_divide avg_time (PyInt 24)) 1\<rparr>)
         else
           (case dict_item category_avg_times cat of
              Inl e \<Rightarrow> Inl e
            | Inr b \<Rightarrow>
                Inr \<lparr>total_complaints = 0,
                     resolved = 0,
                     avg_resolution_hours = of_int b,
                     avg_resolution_days = py_round (true_divide (PyInt b) (PyInt 24)) 1\<rparr>))"

fun stats_loop :: "complaint list \<Rightarrow> string list \<Rightarrow> py_error + (string \<times> category_stats) list" where
  "stats_loop complaints_data [] = Inr []"
| "stats_loop complaints_data (cat # cats) =
     (case stats_for complaints_data cat of
        Inl e \<Rightarrow> Inl e
      | Inr s \<Rightarrow> (case stats_loop complaints_data cats of
                   Inl e \<Rightarrow> Inl e
                 | Inr rest \<Rightarrow> Inr ((cat, s) # rest)))"

definition get_category_statistics ::
  "complaint list \<Rightarrow> py_error + (string \<times> category_stats) list" where
  "get_category_statistics complaints_data =
     stats_loop complaints_data (map fst category_avg_times)"

section \<open>Text primitives\<close>

text \<open>
  A text is a sequence of characters with code points below 256, the Latin-1 range of
  Unicode: a \<open>char\<close> is a code point, not a byte of an encoding, so e-acute is \<open>CHR 0xE9\<close>.
  On this range \<open>str.lower\<close> moves the ASCII capitals and the capitals \<open>0xC0\<close> to \<open>0xDE\<close>
  (but not the sign \<open>0xD7\<close>) up by 32. The class \<open>[a-zA-Z0-9]\<close> is ASCII. The word
  characters of \<open>\b\<close> are the alphanumeric code points and the underscore; the white space
  of \<open>\s\<close> and of \<open>str.split\<close> includes \<open>0x1C\<close> to \<open>0x1F\<close>, \<open>0x85\<close> and \<open>0xA0\<close>.
\<close>

definition ascii_uppercase :: string where
  "ascii_uppercase = ''ABCDEFGHIJKLMNOPQRSTUVWXYZ''"

definition ascii_lowercase :: string where
  "ascii_lowercase = ''abcdefghijklmnopqrstuvwxyz''"

definition digits :: string where
  "digits = ''0123456789''"

definition code_point :: "char \<Rightarrow> nat" where
  "code_point c = of_char c"

definition is_upper :: "char \<Rightarrow> bool" where
  "is_upper c =
     (c \<in> set ascii_uppercase
      \<or> (0xC0 \<le> code_point c \<and> code_point c \<le> 0xDE \<and> code_point c \<noteq> 0xD7))"

definition lower_char :: "char \<Rightarrow> char" where
  "lower_char c = (if is_upper c then char_of (code_point c + 32) else c)"

definition lower :: "string \<Rightarrow> string" where
  "lower text = map lower_char text"

definition is_alnum :: "char \<Rightarrow> bool" where
  "is_alnum c = (c \<in> set (ascii_lowercase @ ascii_uppercase @ digits))"

text \<open>
  The alphanumeric code points from 128 to 255: the ordinal indicators and the micro sign,
  the superscript digits and the fractions, and the letters.
\<close>

definition is_latin1_alnum :: "char \<Rightarrow> bool" where
  "is_latin1_alnum c =
     (code_point c \<in> set [0xAA, 0xB2, 0xB3, 0xB5, 0xB9, 0xBA, 0xBC, 0xBD, 0xBE]
      \<or> (0xC0 \<le> code_point c \<and> code_point c \<le> 0xD6)
      \<or> (0xD8 \<le> code_point c \<and> code_point c \<le> 0xF6)
      \<or> (0xF8 \<le> code_point c \<and> code_point c \<le> 0xFF))"

definition is_word_char :: "char \<Rightarrow> bool" where
  "is_word_char c = (is_alnum c \<or> is_latin1_alnum c \<or> c = CHR ''_'')"

definition is_space :: "char \<Rightarrow> bool" where
  "is_space c = (c \<in> set [CHR '' '', CHR 0x09, CHR 0x0A, CHR 0x0B, CHR 0x0C, CHR 0x0D,
                           CHR 0x1C, CHR 0x1D, CHR 0x1E, CHR 0x1F, CHR 0x85, CHR 0xA0])"

text \<open>\<open>re.sub(r'[^a-zA-Z0-9\s]', ' ', text)\<close>.\<close>

definition re_sub_special :: "string \<Rightarrow> string" where
  "re_sub_special text = map (\<lambda>c. if is_alnum c \<or> is_space c then c else CHR '' '') text"

text \<open>\<open>text.split()\<close>: the maximal runs of characters that are not white space.\<close>

fun split_from :: "string \<Rightarrow> string \<Rightarrow> string list" where
  "split_from cur [] = (if cur = [] then [] else [cur])"
| "split_from cur (c # cs) =
     (if is_space c then (if cur = [] then split_from [] cs else cur # split_from [] cs)
      else split_from (cur @ [c]) cs)"

definition split :: "string \<Rightarrow> string list" where
  "split text = split_from [] text"

text \<open>
  \<open>len(re.findall(r'\b' + re.escape(keyword) + r'\b', text))\<close>: the matches of the literal
  keyword between two word boundaries, found from left to right without overlap. A word
  boundary lies between two neighbours of which exactly one is a word character; the
  outside of the text is not a word character.
\<close>

definition is_word_opt :: "char option \<Rightarrow> bool" where
  "is_word_opt c = (case c of None \<Rightarrow> False | Some x \<Rightarrow> is_word_char x)"

definition word_boundary :: "char option \<Rightarrow> char option \<Rightarrow> bool" where
  "word_boundary prev nxt = (is_word_opt prev \<noteq> is_word_opt nxt)"

definition first_char :: "string \<Rightarrow> char option" where
  "first_char s = (case s of [] \<Rightarrow> None | c # _ \<Rightarrow> Some c)"

definition last_char :: "string \<Rightarrow> char option" where
  "last_char s = first_char (rev s)"

definition matches_here :: "string \<Rightarrow> char option \<Rightarrow> string \<Rightarrow> bool" where
  "matches_here keyword prev rest =
     (keyword \<noteq> [] \<and> take (length keyword) rest = keyword
      \<and> word_boundary prev (first_char keyword)
      \<and> word_boundary (last_char keyword) (first_char (drop (length keyword) rest)))"

text \<open>
  \<open>skip\<close> counts the characters of the last match that are still to be passed; a new match
  may start only at the first position after it.
\<close>

fun count_matches_from :: "string \<Rightarrow> nat \<Rightarrow> char option \<Rightarrow> string \<Rightarrow> nat" where
  "count_matches_from keyword skip prev [] = 0"
| "count_matches_from keyword skip prev (c # cs) =
     (if 0 < skip then count_matches_from keyword (skip - 1) (Some c) cs
      else if matches_here keyword prev (c # cs)
        then 1 + count_matches_from keyword (length keyword - 1) (Some c) cs
      else count_matches_from keyword 0 (Some c) cs)"

definition findall_count :: "string \<Rightarrow> string \<Rightarrow> nat" where
  "findall_count keyword text = count_matches_from keyword 0 None text"

text \<open>\<open>max(values)\<close> and \<open>max(keys, key=f)\<close>: the first of the largest elements.\<close>

fun max_from :: "('a \<Rightarrow> int) \<Rightarrow> 'a \<Rightarrow> 'a list \<Rightarrow> 'a" where
  "max_from key best [] = best"
| "max_from key best (x # xs) = max_from key (if key best < key x then x else best) xs"

definition py_max_key :: "('a \<Rightarrow> int) \<Rightarrow> 'a list \<Rightarrow> py_error + 'a" where
  "py_max_key key xs = (case xs of [] \<Rightarrow> Inl ValueError | x # rest \<Rightarrow> Inr (max_from key x rest))"

definition py_max :: "int list \<Rightarrow> py_error + int" where
  "py_max xs = py_max_key (\<lambda>x. x) xs"


section \<open>Complaint categorizer (src/ai_module/categorizer.py)\<close>

definition category_keywords :: "(string \<times> string list) list" where
  "category_keywords =
     [(''IT Issues'',
        [''internet'', ''wifi'', ''network'', ''computer'', ''laptop'', ''lab'',
         ''software'', ''hardware'', ''printer'', ''projector'', ''system'',
         ''server'', ''website'', ''portal'', ''login'', ''password'', ''slow'',
         ''connection'', ''download'', ''upload'', ''screen'', ''mouse'', ''keyboard'']),
      (''Hostel Management'',
        [''hostel'', ''room'', ''accommodation'', ''mess'', ''food'', ''canteen'',
         ''warden'', ''cleanliness'', ''maintenance'', ''water'', ''electricity'',
         ''bed'', ''mattress'', ''bathroom'', ''toilet'', ''hot water'', ''cold water'',
         ''roommate'', ''noise'', ''hygiene'', ''laundry'', ''dining'']),
      (''Academics'',
        [''exam'', ''test'', ''marks'', ''grades'', ''faculty'', ''professor'',
         ''teacher'', ''course'', ''class'', ''lecture'', ''syllabus'', ''schedule'',
         ''timetable'', ''attendance'', ''assignment'', ''project'', ''lab report'',
         ''curriculum'', ''subject'', ''semester'', ''academic'', ''study'']),
      (''Administration'',
        [''certificate'', ''document'', ''bonafide'', ''admission'', ''registration'',
         ''fee'', ''payment'', ''scholarship'', ''id card'', ''transcript'',
         ''verification'', ''office'', ''application'', ''form'', ''approval'',
         ''process'', ''department'', ''staff'', ''administration'', ''official'']),
      (''Library'',
        [''library'', ''book'', ''reference'', ''journal'', ''reading room'',
         ''librarian'', ''borrow'', ''return'', ''due date'', ''fine'', ''catalog'',
         ''search'', ''database'', ''e-book'', ''digital'', ''photocopy'',
         ''study space'', ''quiet'', ''hours'', ''membership'']),
      (''Sports & Recreation'',
        [''sports'', ''playground'', ''field'', ''court'', ''gym'', ''fitness'',
         ''basketball'', ''football'', ''cricket'', ''volleyball'', ''equipment'',
         ''recreation'', ''athletic'', ''tournament'', ''game'', ''physical'',
         ''exercise'', ''coach'', ''training'', ''facility'']),
      (''Other'', [])]"

text \<open>
  The categorizer owns a Porter stemmer and the set of English stop words, and calls the
  tokenizer of the same library. They are the library's, not this program's: the model
  takes them as the fields of the categorizer. A tokenizer that raises (the source falls
  back to \<open>text.split()\<close> then) returns \<open>None\<close>.
\<close>

record ComplaintCategorizer =
  stemmer :: "string \<Rightarrow> string"
  stop_words :: "string set"
  word_tokenize :: "string \<Rightarrow> string list option"

definition preprocess_text :: "ComplaintCategorizer \<Rightarrow> string \<Rightarrow> string list" where
  "preprocess_text self text =
     (let text = lower text;
          text = re_sub_special text;
          tokens = (case word_tokenize self text of Some ts \<Rightarrow> ts | None \<Rightarrow> split text)
      in map (stemmer self)
           (filter (\<lambda>token. token \<notin> stop_words self \<and> 2 < length token) tokens))"

text \<open>The inner loop of \<open>calculate_category_scores\<close>: one point for each token that is a keyword.\<close>

definition count_matches :: "string list \<Rightarrow> string list \<Rightarrow> int" where
  "count_matches stemmed_keywords tokens =
     fold (\<lambda>token score. if token \<in> set stemmed_keywords then score + 1 else score) tokens 0"

definition calculate_category_scores ::
  "ComplaintCategorizer \<Rightarrow> string list \<Rightarrow> (string \<times> int) list" where
  "calculate_category_scores self tokens =
     map (\<lambda>(cat, keywords).
            (cat, count_matches (map (\<lambda>kw. stemmer self (lower kw)) keywords) tokens))
         category_keywords"

text \<open>The body of \<open>categorize\<close> below the test of the manual category.\<close>

definition categorize_text :: "ComplaintCategorizer \<Rightarrow> string \<Rightarrow> py_error + (string \<times> real)" where
  "categorize_text self complaint_text =
     (let tokens = preprocess_text self complaint_text;
          scores = calculate_category_scores self tokens
      in case py_max (map snd scores) of
           Inl e \<Rightarrow> Inl e
         | Inr max_score \<Rightarrow>
             if max_score = 0 then Inr (''Other'', 0.5)
             else (case py_max_key (\<lambda>k. dict_get scores k 0) (map fst scores) of
                     Inl e \<Rightarrow> Inl e
                   | Inr best_category \<Rightarrow>
                       (let total_keywords = sum_list (map snd scores);
                            confidence = (if 0 < total_keywords
                                          then of_int max_score / of_int total_keywords else 0.5);
                            confidence = min confidence 0.99
                        in Inr (best_category, confidence))))"

text \<open>A manual category counts when it is given, not empty, and a key of the keyword table.\<close>

definition categorize ::
  "ComplaintCategorizer \<Rightarrow> string \<Rightarrow> string option \<Rightarrow> py_error + (string \<times> real)" where
  "categorize self complaint_text manual_category =
     (case manual_category of
        None \<Rightarrow> categorize_text self complaint_text
      | Some m \<Rightarrow>
          if m \<noteq> [] \<and> m \<in> set (map fst category_keywords) then Inr (m, 0.95)
          else categorize_text self complaint_text)"


section \<open>Sentiment analyzer (src/ai_module/sentiment_analyzer.py)\<close>

definition urgent_keywords :: "string list" where
  "urgent_keywords =
     [''urgent'', ''immediately'', ''asap'', ''emergency'', ''critical'',
      ''serious'', ''severe'', ''dangerous'', ''broken'', ''not working'',
      ''failed'', ''unable'', ''cannot'', ''stuck'', ''blocked'', ''help'',
      ''please'', ''very'', ''extremely'', ''terrible'', ''worst'', ''awful'']"

text \<open>
  The polarity and the subjectivity of a text come from the sentiment library. The model
  takes the library's function as the field of the analyzer; \<open>None\<close> is a call that raises.
\<close>

record SentimentAnalyzer =
  text_blob :: "string \<Rightarrow> (real \<times> real) option"

definition analyze_sentiment :: "SentimentAnalyzer \<Rightarrow> string \<Rightarrow> real \<times> real" where
  "analyze_sentiment self text =
     (case text_blob self text of Some (p, s) \<Rightarrow> (p, s) | None \<Rightarrow> (0.0, 0.5))"

definition detect_urgent_keywords :: "string \<Rightarrow> int" where
  "detect_urgent_keywords text =
     (let text_lower = lower text
      in fold (\<lambda>keyword count. count + int (findall_count keyword text_lower)) urgent_keywords 0)"

definition calculate_urgency_score :: "SentimentAnalyzer \<Rightarrow> string \<Rightarrow> real" where
  "calculate_urgency_score self text =
     (let (polarity, subjectivity) = analyze_sentiment self text;
          urgent_count = detect_urgent_keywords text;
          sentiment_urgency = max 0 (- polarity);
          keyword_boost = min (of_int urgent_count * 0.15) 0.5;
          subjectivity_factor = subjectivity * 0.2
      in min (sentiment_urgency + keyword_boost + subjectivity_factor) 1.0)"

text \<open>The body of \<open>determine_priority\<close> below the test of the manual priority.\<close>

definition priority_of_text :: "SentimentAnalyzer \<Rightarrow> string \<Rightarrow> string" where
  "priority_of_text self text =
     (let urgency = calculate_urgency_score self text
      in if 0.6 \<le> urgency then ''High''
         else if 0.3 \<le> urgency then ''Medium''
         else ''Low'')"

definition determine_priority :: "SentimentAnalyzer \<Rightarrow> string \<Rightarrow> string option \<Rightarrow> string" where
  "determine_priority self text manual_priority =
     (case manual_priority of
        None \<Rightarrow> priority_of_text self text
      | Some m \<Rightarrow>
          if m \<noteq> [] \<and> m \<in> set [''High'', ''Medium'', ''Low''] then m
          else priority_of_text self text)"

record sentiment_result =
  polarity :: real
  subjectivity :: real
  urgency_score :: real
  priority :: string
  urgent_keyword_count :: int
  sentiment :: string

definition analyze_complaint :: "SentimentAnalyzer \<Rightarrow> string \<Rightarrow> string option \<Rightarrow> sentiment_result" where
  "analyze_complaint self text manual_priority =
     (let (p, s) = analyze_sentiment self text;
          urgency = calculate_urgency_score self text;
          pri = determine_priority self text manual_priority;
          urgent = detect_urgent_keywords text
      in \<lparr>polarity = p,
          subjectivity = s,
          urgency_score = urgency,
          priority = pri,
          urgent_keyword_count = urgent,
          sentiment = (if p < - 0.1 then ''negative''
                       else if 0.1 < p then ''positive'' else ''neutral'')\<rparr>)"

section \<open>Notions used in the statements\<close>

text \<open>
  Notions used to state the properties of the statistics: the hours a record holds, the
  records of a category that the statistics count as resolved, and the mean of their hours
  (the float that the true division of their sum by their number gives).
\<close>

definition recorded_hours :: "complaint \<Rightarrow> py_number" where
  "recorded_hours c = (case resolution_time c of None \<Rightarrow> PyInt 0 | Some x \<Rightarrow> x)"

definition counted_resolved :: "complaint list \<Rightarrow> string \<Rightarrow> complaint list" where
  "counted_resolved history cat =
     filter (\<lambda>c. category c = Some cat \<and> status c = Some ''Resolved''
                 \<and> truthy_num (resolution_time c)) history"

definition mean_hours :: "complaint list \<Rightarrow> real" where
  "mean_hours cs =
     true_divide (foldl py_add (PyInt 0) (map recorded_hours cs)) (PyInt (int (length cs)))"

text \<open>The entry that the statistics hold for a category with baseline \<open>b\<close>, in closed form.\<close>

definition entry_of :: "complaint list \<Rightarrow> string \<Rightarrow> int \<Rightarrow> category_stats" where
  "entry_of history cat b =
     (let counted = counted_resolved history cat;
          avg = (if counted \<noteq> [] then PyFloat (mean_hours counted) else PyInt b)
      in \<lparr>total_complaints = int (length (filter (\<lambda>c. category c = Some cat) history)),
          resolved = int (length counted),
          avg_resolution_hours = round_number avg 1,
          avg_resolution_days = py_round (true_divide avg (PyInt 24)) 1\<rparr>)"

text \<open>A history used to evaluate the statistics on a concrete input.\<close>

definition example_history :: "complaint list" where
  "example_history =
     [\<lparr>category = Some ''Library'', status = Some ''Resolved'', resolution_time = Some (PyInt 1)\<rparr>,
      \<lparr>category = Some ''Library'', status = Some ''Resolved'', resolution_time = None\<rparr>,
      \<lparr>category = Some ''Library'', status = Some ''Resolved'', resolution_time = Some (PyInt 0)\<rparr>,
      \<lparr>category = Some ''Library'', status = Some ''Pending'', resolution_time = Some (PyFloat 9.5)\<rparr>,
      \<lparr>category = Some ''Library'', status = Some ''Resolved'', resolution_time = Some (PyInt 1)\<rparr>,
      \<lparr>category = Some ''Library'', status = Some ''Resolved'', resolution_time = Some (PyInt 1)\<rparr>,
      \<lparr>category = Some ''Library'', status = Some ''Resolved'', resolution_time = Some (PyInt 1)\<rparr>,
      \<lparr>category = Some ''Library'', status = Some ''Resolved'', resolution_time = Some (PyInt 14)\<rparr>,
      \<lparr>category = Some ''Other'', status = None, resolution_time = None\<rparr>]"

text \<open>A record that is not resolved, or is resolved with a resolution time that counts.\<close>

definition timed_or_open :: "complaint \<Rightarrow> bool" where
  "timed_or_open c = (status c \<noteq> Some ''Resolved'' \<or> truthy_num (resolution_time c))"

text \<open>The category, the resolved count and the two averages of an entry of the statistics.\<close>

definition resolved_summary :: "string \<times> category_stats \<Rightarrow> string \<times> int \<times> real \<times> real" where
  "resolved_summary e = (fst e, resolved (snd e), avg_resolution_hours (snd e), avg_resolution_days (snd e))"

text \<open>An analyzer over a fixed sentiment function, used to evaluate the analyzer on a concrete input.\<close>

definition example_analyzer :: SentimentAnalyzer where
  "example_analyzer = \<lparr>text_blob = (\<lambda>text. if text = [] then None else Some (- 0.1, 0.5))\<rparr>"


text \<open>A categorizer with the identity as stemmer, three stop words and a tokenizer that always
  raises, used to evaluate the categorizer on concrete inputs.\<close>

definition example_categorizer :: ComplaintCategorizer where
  "example_categorizer =
     \<lparr>stemmer = (\<lambda>w. w), stop_words = {''the'', ''and'', ''very''}, word_tokenize = (\<lambda>t. None)\<rparr>"

text \<open>The score map of a text, and the score of one category in it.\<close>

definition scores_of :: "ComplaintCategorizer \<Rightarrow> string \<Rightarrow> (string \<times> int) list" where
  "scores_of self text = calculate_category_scores self (preprocess_text self text)"

definition score_of :: "ComplaintCategorizer \<Rightarrow> string \<Rightarrow> string \<Rightarrow> int" where
  "score_of self text cat = dict_get (scores_of self text) cat 0"





section \<open>Properties of the predictor\<close>

lemma bitlen_binade: "2 ^ k \<le> n \<Longrightarrow> n < 2 ^ Suc k \<Longrightarrow> bitlen n = int k + 1"
proof (induction k arbitrary: n)
  case 0
  then have "n = 1" by simp
  then show ?case by (simp add: compute_bitlen)
next
  case (Suc k)
  from Suc.prems have "2 ^ k \<le> n div 2" "n div 2 < 2 ^ Suc k" by simp_all
  then have "bitlen (n div 2) = int k + 1" by (rule Suc.IH)
  moreover from Suc.prems have "0 < n" by (smt (verit) zero_less_power)
  ultimately show ?case by (subst compute_bitlen) simp
qed

lemma round_half_even_bounds:
  "y - 1 \<le> of_int (round_half_even y)" "of_int (round_half_even y) \<le> y + 1"
  unfolding round_half_even_def Let_def by (auto; linarith)+

lemma fl_between_8_and_16:
  assumes "8 \<le> x" "x < 16"
  shows "fl x = of_int (round_half_even (x * 2 ^ 49)) / 2 ^ 49"
proof -
  from assms have "2 ^ 3 \<le> \<lfloor>\<bar>x\<bar>\<rfloor>" "\<lfloor>\<bar>x\<bar>\<rfloor> < 2 ^ Suc 3"
    by (simp_all add: le_floor_iff floor_less_iff)
  then have "bitlen \<lfloor>\<bar>x\<bar>\<rfloor> = int 3 + 1" by (rule bitlen_binade)
  with assms have "float_exponent x = 3" by (simp add: float_exponent_def)
  with assms show ?thesis by (simp add: fl_def pow2_def Let_def)
qed

lemma fl_12: "fl 12 = 12"
  by code_simp

lemma hours_of_twelve:
  assumes "0.8 \<le> v" "v \<le> 1.2"
  shows "9 \<le> py_int (fl (12 * v))" "py_int (fl (12 * v)) \<le> 14"
proof -
  let ?x = "12 * v"
  from assms have r: "8 \<le> ?x" "?x < 16" by simp_all
  note f = fl_between_8_and_16 [OF r]
  have p: "(0::real) < 2 ^ 49" by simp
  from round_half_even_bounds(1) [of "?x * 2 ^ 49"]
  have "(?x * 2 ^ 49 - 1) / 2 ^ 49 \<le> fl ?x"
    unfolding f using p by (simp add: divide_right_mono)
  moreover have "(?x * 2 ^ 49 - 1) / 2 ^ 49 = ?x - 1 / 2 ^ 49"
    by (simp add: diff_divide_distrib)
  moreover have "(1::real) / 2 ^ 49 \<le> 1 / 2" by simp
  ultimately have lo: "9 \<le> fl ?x" using assms by linarith
  from round_half_even_bounds(2) [of "?x * 2 ^ 49"]
  have "fl ?x \<le> (?x * 2 ^ 49 + 1) / 2 ^ 49"
    unfolding f using p by (simp add: divide_right_mono)
  moreover have "(?x * 2 ^ 49 + 1) / 2 ^ 49 = ?x + 1 / 2 ^ 49"
    by (simp add: add_divide_distrib)
  moreover have "(1::real) / 2 ^ 49 \<le> 1 / 2" by simp
  ultimately have hi: "fl ?x < 15" using assms by linarith
  from lo show "9 \<le> py_int (fl (12 * v))"
    by (simp add: py_int_def le_floor_iff)
  from lo hi show "py_int (fl (12 * v)) \<le> 14"
    by (simp add: py_int_def floor_le_iff)
qed

text \<open>
  Claim C1. Whatever the category, the priority and the description, and for every variance
  in the interval from 0.8 to 1.2, the predicted hours are at least 1 and the predicted days
  are the hours divided by 24, rounded to one decimal. For the category "IT Issues" with
  priority "High" and workload factor 1.0 the hours lie between 9 and 14.
\<close>

theorem predict_hours_days:
  assumes "0.8 \<le> variance" and "variance \<le> 1.2"
  shows "1 \<le> hours (predict_resolution_time self variance cat pri description)
    \<and> days (predict_resolution_time self variance cat pri description)
        = py_round (fdiv (of_int (hours (predict_resolution_time self variance cat pri description))) 24) 1
    \<and> (workload_factor self = 1.0 \<longrightarrow>
         9 \<le> hours (predict_resolution_time self variance ''IT Issues'' ''High'' description)
         \<and> hours (predict_resolution_time self variance ''IT Issues'' ''High'' description) \<le> 14)"
proof -
  have a: "1 \<le> hours (predict_resolution_time self variance cat pri description)"
    by (simp add: predict_resolution_time_def Let_def)
  have b: "days (predict_resolution_time self variance cat pri description)
        = py_round (fdiv (of_int (hours (predict_resolution_time self variance cat pri description))) 24) 1"
    by (simp add: predict_resolution_time_def Let_def)
  have c: "9 \<le> hours (predict_resolution_time self variance ''IT Issues'' ''High'' description)
         \<and> hours (predict_resolution_time self variance ''IT Issues'' ''High'' description) \<le> 14"
    if wf: "workload_factor self = 1.0"
  proof -
    have h: "hours (predict_resolution_time self variance ''IT Issues'' ''High'' description)
        = max (py_int (fl (12 * variance))) 1"
      using wf by (simp add: predict_resolution_time_def Let_def dict_get_def
          category_avg_times_def priority_multipliers_def fmul_def fl_12)
    from hours_of_twelve [OF assms] h show ?thesis by simp
  qed
  from a b c show ?thesis by blast
qed

lemma predict_example:
  "hours (predict_resolution_time new_predictor 1.1 ''IT Issues'' ''High'' None) = 13"
  "days (predict_resolution_time new_predictor 1.1 ''IT Issues'' ''High'' None) = 0.5"
  by code_simp+

theorem predict_hours_days_witness:
  "(0.8::real) \<le> 1.1 \<and> (1.1::real) \<le> 1.2 \<and> workload_factor new_predictor = 1.0
   \<and> hours (predict_resolution_time new_predictor 1.1 ''IT Issues'' ''High'' None) = 13
   \<and> days (predict_resolution_time new_predictor 1.1 ''IT Issues'' ''High'' None) = 0.5
   \<and> 1 \<le> hours (predict_resolution_time new_predictor 1.1 ''IT Issues'' ''High'' None)
   \<and> days (predict_resolution_time new_predictor 1.1 ''IT Issues'' ''High'' None)
        = py_round (fdiv (of_int (hours (predict_resolution_time new_predictor 1.1 ''IT Issues'' ''High'' None))) 24) 1
   \<and> 9 \<le> hours (predict_resolution_time new_predictor 1.1 ''IT Issues'' ''High'' None)
   \<and> hours (predict_resolution_time new_predictor 1.1 ''IT Issues'' ''High'' None) \<le> 14"
proof -
  have v: "(0.8::real) \<le> 1.1" "(1.1::real) \<le> 1.2" by simp_all
  have w: "workload_factor new_predictor = 1.0" by (simp add: new_predictor_def)
  from predict_hours_days [OF v, of new_predictor "''IT Issues''" "''High''" None] v w predict_example
  show ?thesis by simp
qed

lemma run_calls_append:
  "run_calls self (xs @ ys) =
     (fst (run_calls self xs) @ fst (run_calls (snd (run_calls self xs)) ys),
      snd (run_calls (snd (run_calls self xs)) ys))"
  by (induction self xs rule: run_calls.induct) (simp_all add: Let_def split: prod.splits)

text \<open>
  Claim C7. For every pending count, \<open>update_workload_factor\<close> sets the workload factor to the
  float 0.9 below 10, to 1.0 from 10 below 20, to the float 1.2 from 20 below 50, and to 1.5
  from 50 on. A prediction made after the update multiplies base time, priority multiplier
  and this new factor, in float arithmetic. In a session of calls, the predictions returned
  before the update are the ones the session without the update returned, and the later ones
  are computed by the updated predictor.
\<close>

theorem update_workload_factor_effect:
  "workload_factor (update_workload_factor self n)
     = (if n < 10 then fl 0.9 else if n < 20 then 1.0 else if n < 50 then fl 1.2 else 1.5)
   \<and> hours (predict_resolution_time (update_workload_factor self n) v c p d)
     = max (py_int (fmul (fmul (fmul (of_int (dict_get category_avg_times c 72))
                                     (dict_get priority_multipliers p 1.0))
                               (if n < 10 then fl 0.9 else if n < 20 then 1.0
                                else if n < 50 then fl 1.2 else 1.5))
                         v)) 1
   \<and> fst (run_calls self (earlier @ UpdateWorkload n # later))
     = fst (run_calls self earlier)
       @ fst (run_calls (update_workload_factor (snd (run_calls self earlier)) n) later)"
proof -
  have a: "workload_factor (update_workload_factor self n)
     = (if n < 10 then fl 0.9 else if n < 20 then 1.0 else if n < 50 then fl 1.2 else 1.5)"
    by (simp add: update_workload_factor_def)
  have b: "hours (predict_resolution_time st v c p d)
     = max (py_int (fmul (fmul (fmul (of_int (dict_get category_avg_times c 72))
                                     (dict_get priority_multipliers p 1.0))
                               (workload_factor st))
                         v)) 1" for st
    by (simp add: predict_resolution_time_def Let_def)
  have c: "fst (run_calls self (earlier @ UpdateWorkload n # later))
     = fst (run_calls self earlier)
       @ fst (run_calls (update_workload_factor (snd (run_calls self earlier)) n) later)"
    by (simp add: run_calls_append)
  from a c b [of "update_workload_factor self n"] show ?thesis by simp
qed

lemma workload_example:
  "max (py_int (fmul (fmul (fmul (of_int (dict_get category_avg_times ''IT Issues'' 72))
                                 (dict_get priority_multipliers ''Medium'' 1.0))
                           (if (20::int) < 10 then fl 0.9 else if (20::int) < 20 then 1.0
                            else if (20::int) < 50 then fl 1.2 else 1.5))
                     0.9375)) 1 = 26"
  by code_simp

theorem update_workload_factor_effect_witness:
  "workload_factor (update_workload_factor new_predictor 20) = fl 1.2
   \<and> hours (predict_resolution_time (update_workload_factor new_predictor 20) 0.9375
        ''IT Issues'' ''Medium'' None) = 26"
  using update_workload_factor_effect [of new_predictor 20 "0.9375" "''IT Issues''" "''Medium''" None]
    workload_example
  by simp

lemma sum_from_ok:
  "\<forall>c\<in>set cs. truthy_num (resolution_time c) \<Longrightarrow>
     sum_from acc cs = Inr (foldl py_add acc (map recorded_hours cs))"
  by (induction cs arbitrary: acc) (auto simp: truthy_num_def recorded_hours_def split: option.splits)

lemma sum_resolution_time_ok:
  "\<forall>c\<in>set cs. truthy_num (resolution_time c) \<Longrightarrow>
     sum_resolution_time cs = Inr (foldl py_add (PyInt 0) (map recorded_hours cs))"
  unfolding sum_resolution_time_def by (rule sum_from_ok)

text \<open>For a list of int hours the mean is the exact mean, rounded once.\<close>

lemma foldl_py_add_ints:
  "foldl py_add (PyInt a) (map PyInt xs) = PyInt (a + sum_list xs)"
  by (induction xs arbitrary: a) (simp_all add: add.assoc)

lemma mean_hours_ints:
  "map recorded_hours cs = map PyInt xs \<Longrightarrow>
     mean_hours cs = fl (of_int (sum_list xs) / of_nat (length xs))"
proof -
  assume m: "map recorded_hours cs = map PyInt xs"
  then have "length cs = length xs" by (metis length_map)
  with m show ?thesis by (simp add: mean_hours_def foldl_py_add_ints fdiv_def)
qed

lemma resolved_of_category:
  "resolved_of (filter (\<lambda>c. category c = Some cat) history) = counted_resolved history cat"
  by (simp add: resolved_of_def counted_resolved_def conj_commute conj_left_commute)

lemma dict_item_avg:
  "(cat, b) \<in> set category_avg_times \<Longrightarrow> dict_item category_avg_times cat = Inr b"
proof -
  assume m: "(cat, b) \<in> set category_avg_times"
  have "distinct (map fst category_avg_times)" by (simp add: category_avg_times_def)
  from this m have "map_of category_avg_times cat = Some b" by (rule map_of_is_SomeI)
  then show ?thesis by (simp add: dict_item_def)
qed

lemma counted_subset:
  "filter (\<lambda>c. category c = Some cat) history = [] \<Longrightarrow> counted_resolved history cat = []"
  by (auto simp: counted_resolved_def filter_empty_conv)

lemma stats_for_ok:
  assumes "(cat, b) \<in> set category_avg_times"
  shows "stats_for history cat = Inr (entry_of history cat b)"
proof (cases "category_complaints_of history cat = []")
  case True
  then have "counted_resolved history cat = []"
    by (simp add: counted_subset category_complaints_of_def)
  with True show ?thesis
    by (simp add: stats_for_def Let_def dict_item_avg [OF assms] entry_of_def category_complaints_of_def)
next
  case False
  show ?thesis
  proof (cases "counted_resolved history cat = []")
    case True
    with False show ?thesis
      by (simp add: stats_for_def Let_def resolved_of_category dict_item_avg [OF assms] entry_of_def
          category_complaints_of_def)
  next
    case nonempty: False
    have "\<forall>c\<in>set (counted_resolved history cat). truthy_num (resolution_time c)"
      by (simp add: counted_resolved_def)
    then have "sum_resolution_time (counted_resolved history cat)
        = Inr (foldl py_add (PyInt 0) (map recorded_hours (counted_resolved history cat)))"
      by (rule sum_resolution_time_ok)
    with False nonempty show ?thesis
      by (simp add: stats_for_def Let_def resolved_of_category entry_of_def
          category_complaints_of_def mean_hours_def)
  qed
qed

lemma stats_loop_ok:
  "\<forall>e\<in>set table. (e \<in> set category_avg_times) \<Longrightarrow>
     stats_loop history (map fst table) = Inr (map (\<lambda>(cat, b). (cat, entry_of history cat b)) table)"
  by (induction table) (auto simp: stats_for_ok)

lemma get_category_statistics_eq:
  "get_category_statistics history
     = Inr (map (\<lambda>(cat, b). (cat, entry_of history cat b)) category_avg_times)"
  unfolding get_category_statistics_def by (rule stats_loop_ok) simp


lemma stats_example:
  "total_complaints (entry_of example_history ''Library'' 48) = 8"
  "resolved (entry_of example_history ''Library'' 48) = 5"
  "counted_resolved example_history ''Library'' \<noteq> []"
  "py_round (mean_hours (counted_resolved example_history ''Library'')) 1 = fl 3.6"
  "py_round (true_divide (PyFloat (mean_hours (counted_resolved example_history ''Library''))) (PyInt 24)) 1
     = fl 0.1"
  "int (length (filter (\<lambda>c. category c = Some ''Library'') example_history)) = 8"
  "length (filter (\<lambda>c. category c = Some ''Library'' \<and> status c = Some ''Resolved'') example_history) = 7"
  "int (length (filter (\<lambda>c. category c = Some ''Library''
      \<and> status c = Some ''Resolved'' \<and> truthy_num (resolution_time c)) example_history)) = 5"
  by code_simp+


lemma counted_resolved_kept:
  "counted_resolved (filter timed_or_open history) cat = counted_resolved history cat"
  unfolding counted_resolved_def timed_or_open_def filter_filter
  by (rule filter_cong) auto

lemma resolved_summary_entry:
  "resolved_summary (cat, entry_of (filter timed_or_open history) cat b)
     = resolved_summary (cat, entry_of history cat b)"
  by (simp add: resolved_summary_def entry_of_def Let_def counted_resolved_kept)

text \<open>
  Claim C10. The resolved count of a category is the number of its records with status
  "Resolved" and a resolution time that is present and not zero. Records with status
  "Resolved" and no such time take no part in the count and in the averages: a history
  without them has the same resolved counts, average hours and average days.
\<close>

theorem resolved_count_excludes_untimed:
  "\<exists>stats kept_stats.
      get_category_statistics history = Inr stats
    \<and> get_category_statistics (filter timed_or_open history) = Inr kept_stats
    \<and> map resolved_summary stats = map resolved_summary kept_stats
    \<and> (\<forall>(cat, baseline) \<in> set category_avg_times. \<exists>s. (cat, s) \<in> set stats
          \<and> resolved s = int (length (filter (\<lambda>c. category c = Some cat
                \<and> status c = Some ''Resolved'' \<and> truthy_num (resolution_time c)) history)))"
proof (intro exI conjI)
  show "get_category_statistics history
      = Inr (map (\<lambda>(cat, b). (cat, entry_of history cat b)) category_avg_times)"
    by (rule get_category_statistics_eq)
  show "get_category_statistics (filter timed_or_open history)
      = Inr (map (\<lambda>(cat, b). (cat, entry_of (filter timed_or_open history) cat b)) category_avg_times)"
    by (rule get_category_statistics_eq)
  show "map resolved_summary (map (\<lambda>(cat, b). (cat, entry_of history cat b)) category_avg_times)
      = map resolved_summary
          (map (\<lambda>(cat, b). (cat, entry_of (filter timed_or_open history) cat b)) category_avg_times)"
    by (simp add: case_prod_unfold resolved_summary_entry)
  show "\<forall>(cat, baseline) \<in> set category_avg_times.
      \<exists>s. (cat, s) \<in> set (map (\<lambda>(cat, b). (cat, entry_of history cat b)) category_avg_times)
          \<and> resolved s = int (length (filter (\<lambda>c. category c = Some cat
                \<and> status c = Some ''Resolved'' \<and> truthy_num (resolution_time c)) history))"
  proof (clarify)
    fix cat baseline
    assume "(cat, baseline) \<in> set category_avg_times"
    then have "(cat, entry_of history cat baseline)
        \<in> set (map (\<lambda>(cat, b). (cat, entry_of history cat b)) category_avg_times)"
      by force
    then show "\<exists>s. (cat, s) \<in> set (map (\<lambda>(cat, b). (cat, entry_of history cat b)) category_avg_times)
          \<and> resolved s = int (length (filter (\<lambda>c. category c = Some cat
                \<and> status c = Some ''Resolved'' \<and> truthy_num (resolution_time c)) history))"
      by (intro exI [of _ "entry_of history cat baseline"])
         (simp add: entry_of_def Let_def counted_resolved_def)
  qed
qed

theorem resolved_count_excludes_untimed_witness:
  "(''Library'', 48) \<in> set category_avg_times
   \<and> length (filter (\<lambda>c. category c = Some ''Library'' \<and> status c = Some ''Resolved'') example_history) = 7
   \<and> (\<exists>stats s. get_category_statistics example_history = Inr stats
         \<and> (''Library'', s) \<in> set stats \<and> resolved s = 5)"
proof -
  have m: "(''Library'', 48) \<in> set category_avg_times"
    by (simp add: category_avg_times_def)
  note seven = stats_example(7) and five = stats_example(8)
  from resolved_count_excludes_untimed [of example_history]
  obtain stats where s: "get_category_statistics example_history = Inr stats"
    and all: "\<forall>(cat, baseline) \<in> set category_avg_times. \<exists>s. (cat, s) \<in> set stats
          \<and> resolved s = int (length (filter (\<lambda>c. category c = Some cat
                \<and> status c = Some ''Resolved'' \<and> truthy_num (resolution_time c)) example_history))"
    by blast
  from all m obtain e where e: "(''Library'', e) \<in> set stats"
    and r: "resolved e = int (length (filter (\<lambda>c. category c = Some ''Library''
                \<and> status c = Some ''Resolved'' \<and> truthy_num (resolution_time c)) example_history))"
    by fastforce
  note trans [OF r five]
  with s e have "get_category_statistics example_history = Inr stats
      \<and> (''Library'', e) \<in> set stats \<and> resolved e = 5"
    by blast
  with m seven show ?thesis by blast
qed

section \<open>Properties of the analyzer and the categorizer\<close>







lemma max_from_split:
  "\<exists>pre post. b # xs = pre @ max_from key b xs # post
     \<and> (\<forall>x\<in>set pre. key x < key (max_from key b xs))
     \<and> (\<forall>x\<in>set post. key x \<le> key (max_from key b xs))"
proof (induction xs arbitrary: b)
  case Nil
  have "[b] = [] @ max_from key b [] # [] \<and> (\<forall>x\<in>set []. key x < key (max_from key b []))
      \<and> (\<forall>x\<in>set []. key x \<le> key (max_from key b []))"
    by simp
  then show ?case by blast
next
  case (Cons x xs)
  show ?case
  proof (cases "key b < key x")
    case True
    then have r: "max_from key b (x # xs) = max_from key x xs" by simp
    from Cons.IH [of x] obtain pre post where
      split: "x # xs = pre @ max_from key x xs # post"
      and lt: "\<forall>y\<in>set pre. key y < key (max_from key x xs)"
      and le: "\<forall>y\<in>set post. key y \<le> key (max_from key x xs)"
      by blast
    have "x \<in> set pre \<or> x = max_from key x xs"
      using split by (cases pre) auto
    with lt have "key x \<le> key (max_from key x xs)" by auto
    with True have "key b < key (max_from key x xs)" by simp
    with split lt le have "b # x # xs = (b # pre) @ max_from key x xs # post
        \<and> (\<forall>y\<in>set (b # pre). key y < key (max_from key x xs))
        \<and> (\<forall>y\<in>set post. key y \<le> key (max_from key x xs))"
      by simp
    then show ?thesis unfolding r by blast
  next
    case False
    then have r: "max_from key b (x # xs) = max_from key b xs" by simp
    from Cons.IH [of b] obtain pre post where
      split: "b # xs = pre @ max_from key b xs # post"
      and lt: "\<forall>y\<in>set pre. key y < key (max_from key b xs)"
      and le: "\<forall>y\<in>set post. key y \<le> key (max_from key b xs)"
      by blast
    show ?thesis
    proof (cases pre)
      case Nil
      with split have rb: "max_from key b xs = b" and post: "post = xs" by auto
      from False le post rb have "b # x # xs = [] @ max_from key b xs # (x # post)
          \<and> (\<forall>y\<in>set []. key y < key (max_from key b xs))
          \<and> (\<forall>y\<in>set (x # post). key y \<le> key (max_from key b xs))"
        by simp
      then show ?thesis unfolding r by blast
    next
      case (Cons p pre')
      with split have p: "p = b" and xs: "xs = pre' @ max_from key b xs # post" by auto
      from lt Cons p have pb: "key b < key (max_from key b xs)" by simp
      from lt Cons have lt': "\<forall>y\<in>set pre'. key y < key (max_from key b xs)" by simp
      from False pb have xr: "key x < key (max_from key b xs)" by simp
      have "b # x # xs = (b # x # pre') @ max_from key b xs # post"
        using xs by simp
      with pb xr lt' le have "b # x # xs = (b # x # pre') @ max_from key b xs # post
          \<and> (\<forall>y\<in>set (b # x # pre'). key y < key (max_from key b xs))
          \<and> (\<forall>y\<in>set post. key y \<le> key (max_from key b xs))"
        by simp
      then show ?thesis unfolding r by blast
    qed
  qed
qed

lemma py_max_key_split:
  assumes "xs \<noteq> []"
  shows "\<exists>r pre post. py_max_key key xs = Inr r \<and> xs = pre @ r # post
     \<and> (\<forall>x\<in>set pre. key x < key r) \<and> (\<forall>x\<in>set post. key x \<le> key r)"
proof -
  from assms obtain b rest where xs: "xs = b # rest" by (cases xs) auto
  from max_from_split [of b rest key] xs show ?thesis
    by (simp add: py_max_key_def)
qed

lemma py_max_greatest:
  assumes "xs \<noteq> []"
  shows "\<exists>m. py_max xs = Inr m \<and> m \<in> set xs \<and> (\<forall>x\<in>set xs. x \<le> m)"
proof -
  from py_max_key_split [OF assms, of "\<lambda>x. x"] obtain r pre post where
    "py_max xs = Inr r" "xs = pre @ r # post" "\<forall>x\<in>set pre. x < r" "\<forall>x\<in>set post. x \<le> r"
    unfolding py_max_def by blast
  then show ?thesis by force
qed

lemma count_matches_fold:
  "fold (\<lambda>token score. if token \<in> K then score + 1 else score) tokens (acc::int)
     = acc + int (length (filter (\<lambda>t. t \<in> K) tokens))"
  by (induction tokens arbitrary: acc) simp_all

lemma count_matches_nonneg: "0 \<le> count_matches stemmed_keywords tokens"
  by (simp add: count_matches_def count_matches_fold)

lemma scores_keys: "map fst (calculate_category_scores self tokens) = map fst category_keywords"
  by (simp add: calculate_category_scores_def case_prod_unfold comp_def)

lemma scores_nonneg: "e \<in> set (calculate_category_scores self tokens) \<Longrightarrow> 0 \<le> snd e"
  by (auto simp: calculate_category_scores_def count_matches_nonneg)

lemma category_names:
  "map fst category_keywords = [''IT Issues'', ''Hostel Management'', ''Academics'',
     ''Administration'', ''Library'', ''Sports & Recreation'', ''Other'']"
  by (simp add: category_keywords_def)


lemma scores_nonempty: "calculate_category_scores self tokens \<noteq> []"
  using scores_keys [of self tokens] by (auto simp: category_names)


lemma categorize_text_result:
  "\<exists>m best pre post.
      py_max (map snd (scores_of self txt)) = Inr m \<and> m \<in> set (map snd (scores_of self txt)) \<and> (\<forall>x\<in>set (map snd (scores_of self txt)). x \<le> m)
    \<and> map fst (scores_of self txt) = pre @ best # post
    \<and> (\<forall>c\<in>set pre. dict_get (scores_of self txt) c 0 < dict_get (scores_of self txt) best 0)
    \<and> (\<forall>c\<in>set post. dict_get (scores_of self txt) c 0 \<le> dict_get (scores_of self txt) best 0)
    \<and> categorize_text self txt =
        (if m = 0 then Inr (''Other'', 0.5)
         else Inr (best, min (if 0 < sum_list (map snd (scores_of self txt))
                              then of_int m / of_int (sum_list (map snd (scores_of self txt))) else 0.5) 0.99))"
proof -
  have ne: "map snd (scores_of self txt) \<noteq> []" "map fst (scores_of self txt) \<noteq> []"
    using scores_nonempty [of self "preprocess_text self txt"]
    by (simp_all add: scores_of_def)
  from py_max_greatest [OF ne(1)] obtain m where
    m: "py_max (map snd (scores_of self txt)) = Inr m" "m \<in> set (map snd (scores_of self txt))" "\<forall>x\<in>set (map snd (scores_of self txt)). x \<le> m"
    by blast
  from py_max_key_split [OF ne(2), of "\<lambda>k. dict_get (scores_of self txt) k 0"] obtain best pre post where
    b: "py_max_key (\<lambda>k. dict_get (scores_of self txt) k 0) (map fst (scores_of self txt)) = Inr best"
      "map fst (scores_of self txt) = pre @ best # post"
      "\<forall>c\<in>set pre. dict_get (scores_of self txt) c 0 < dict_get (scores_of self txt) best 0"
      "\<forall>c\<in>set post. dict_get (scores_of self txt) c 0 \<le> dict_get (scores_of self txt) best 0"
    by blast
  have "categorize_text self txt =
        (if m = 0 then Inr (''Other'', 0.5)
         else Inr (best, min (if 0 < sum_list (map snd (scores_of self txt))
                              then of_int m / of_int (sum_list (map snd (scores_of self txt))) else 0.5) 0.99))"
    using m(1) b(1)
    by (simp add: categorize_text_def Let_def scores_of_def)
  with m b(2,3,4) show ?thesis by blast
qed

lemma categorize_text_confidence:
  "\<exists>c conf. categorize_text self text = Inr (c, conf) \<and> 0 \<le> conf \<and> conf \<le> 0.99"
proof -
  from categorize_text_result [of self "text"] obtain m best where
    mem: "m \<in> set (map snd (scores_of self text))"
    and res: "categorize_text self text =
        (if m = 0 then Inr (''Other'', 0.5)
         else Inr (best, min (if 0 < sum_list (map snd (scores_of self text))
                    then of_int m / of_int (sum_list (map snd (scores_of self text))) else 0.5) 0.99))"
    by blast
  from mem have m0: "0 \<le> m"
    using scores_nonneg [of _ self "preprocess_text self text"] by (auto simp: scores_of_def)
  show ?thesis
  proof (cases "m = 0")
    case True
    with res have "categorize_text self text = Inr (''Other'', 0.5) \<and> (0::real) \<le> 0.5 \<and> (0.5::real) \<le> 0.99"
      by simp
    then show ?thesis by blast
  next
    case False
    let ?t = "sum_list (map snd (scores_of self text))"
    let ?q = "if 0 < ?t then real_of_int m / real_of_int ?t else 0.5"
    have "0 \<le> ?q" using m0 by simp
    then have "0 \<le> min ?q 0.99" "min ?q 0.99 \<le> 0.99" by simp_all
    with False res have "categorize_text self text = Inr (best, min ?q 0.99)
        \<and> 0 \<le> min ?q 0.99 \<and> min ?q 0.99 \<le> 0.99"
      by simp
    then show ?thesis by blast
  qed
qed

lemma category_nonempty: "m \<in> set (map fst category_keywords) \<Longrightarrow> m \<noteq> []"
  by (auto simp: category_names)

lemma categorize_returns:
  "\<exists>c conf. categorize self text manual_category = Inr (c, conf) \<and> 0 \<le> conf \<and> conf \<le> 0.99"
proof (cases manual_category)
  case None
  then show ?thesis using categorize_text_confidence [of self "text"]
    by (simp add: categorize_def)
next
  case (Some v)
  show ?thesis
  proof (cases "v \<noteq> [] \<and> v \<in> set (map fst category_keywords)")
    case True
    with Some have "categorize self text manual_category = Inr (v, 0.95)
        \<and> (0::real) \<le> 0.95 \<and> (0.95::real) \<le> 0.99"
      by (simp add: categorize_def)
    then show ?thesis by blast
  next
    case False
    with Some have "categorize self text manual_category = categorize_text self text"
      by (auto simp: categorize_def)
    then show ?thesis using categorize_text_confidence [of self "text"] by simp
  qed
qed

text \<open>
  Claim C3. For every text and every manual category, \<open>categorize\<close> returns a category with a
  confidence between 0 and 0.99. A manual category that is a key of the keyword table is
  returned unchanged with confidence 0.95, whatever the text is.
\<close>

theorem categorize_confidence_and_manual:
  "(\<exists>c conf. categorize self text manual_category = Inr (c, conf) \<and> 0 \<le> conf \<and> conf \<le> 0.99)
   \<and> (m \<in> set (map fst category_keywords) \<longrightarrow>
        categorize self text (Some m) = Inr (m, 0.95)
      \<and> categorize self other_text (Some m) = categorize self text (Some m))"
proof -
  have a: "\<exists>c conf. categorize self text manual_category = Inr (c, conf) \<and> 0 \<le> conf \<and> conf \<le> 0.99"
    by (rule categorize_returns)
  have b: "categorize self t (Some m) = Inr (m, 0.95)" if "m \<in> set (map fst category_keywords)" for t
    using that category_nonempty [OF that] by (simp add: categorize_def)
  from a b show ?thesis by simp
qed

text \<open>
  Claim C4. Without a manual category, a text whose tokens match no keyword of any category
  is classified as "Other" with confidence 0.5, and so is a text that yields no tokens at
  all, such as the empty text. The result is a value, not an error.
\<close>

theorem no_match_is_other:
  "((\<forall>e\<in>set (scores_of self text). snd e = 0) \<longrightarrow> categorize self text None = Inr (''Other'', 0.5))
   \<and> (preprocess_text self text = [] \<longrightarrow> categorize self text None = Inr (''Other'', 0.5))"
proof -
  have a: "categorize self text None = Inr (''Other'', 0.5)"
    if z: "\<forall>e\<in>set (scores_of self text). snd e = 0"
  proof -
    from categorize_text_result [of self "text"] obtain m best where
      mem: "m \<in> set (map snd (scores_of self text))"
      and res: "categorize_text self text =
          (if m = 0 then Inr (''Other'', 0.5)
           else Inr (best, min (if 0 < sum_list (map snd (scores_of self text))
                      then of_int m / of_int (sum_list (map snd (scores_of self text))) else 0.5) 0.99))"
      by blast
    from mem z have "m = 0" by auto
    with res show ?thesis by (simp add: categorize_def)
  qed
  have b: "\<forall>e\<in>set (scores_of self text). snd e = 0" if "preprocess_text self text = []"
    using that by (auto simp: scores_of_def calculate_category_scores_def count_matches_def)
  from a b show ?thesis by blast
qed

text \<open>
  Claim C5. Without a manual category, when at least one keyword matches, \<open>categorize\<close>
  returns a category of maximal match count, and among the categories of maximal count the
  first one in the order IT Issues, Hostel Management, Academics, Administration, Library,
  Sports & Recreation, Other: every category before it has a strictly smaller count and
  every category after it has a count that is not larger.
\<close>

theorem best_category_first_maximal:
  assumes "\<exists>e\<in>set (scores_of self text). 0 < snd e"
  shows "\<exists>best conf pre post.
      categorize self text None = Inr (best, conf)
    \<and> [''IT Issues'', ''Hostel Management'', ''Academics'', ''Administration'', ''Library'',
        ''Sports & Recreation'', ''Other''] = pre @ best # post
    \<and> (\<forall>c\<in>set pre. score_of self text c < score_of self text best)
    \<and> (\<forall>c\<in>set post. score_of self text c \<le> score_of self text best)"
proof -
  from categorize_text_result [of self "text"] obtain m best pre post where
    ub: "\<forall>x\<in>set (map snd (scores_of self text)). x \<le> m"
    and split: "map fst (scores_of self text) = pre @ best # post"
    and lt: "\<forall>c\<in>set pre. dict_get (scores_of self text) c 0 < dict_get (scores_of self text) best 0"
    and le: "\<forall>c\<in>set post. dict_get (scores_of self text) c 0 \<le> dict_get (scores_of self text) best 0"
    and res: "categorize_text self text =
          (if m = 0 then Inr (''Other'', 0.5)
           else Inr (best, min (if 0 < sum_list (map snd (scores_of self text))
                      then of_int m / of_int (sum_list (map snd (scores_of self text))) else 0.5) 0.99))"
    by blast
  from assms ub have "0 < m" by force
  with res have "\<exists>conf. categorize self text None = Inr (best, conf)"
    by (simp add: categorize_def)
  moreover have "map fst (scores_of self text) = [''IT Issues'', ''Hostel Management'', ''Academics'',
      ''Administration'', ''Library'', ''Sports & Recreation'', ''Other'']"
    by (simp add: scores_of_def scores_keys category_names)
  ultimately show ?thesis using split lt le unfolding score_of_def by metis
qed

text \<open>
  Claim C8. A manual category that is not a key of the keyword table gives the result of
  \<open>categorize\<close> without a manual category, and a manual priority other than High, Medium and
  Low gives the results of \<open>determine_priority\<close> and \<open>analyze_complaint\<close> without a manual
  priority. The value is ignored, and \<open>categorize\<close> returns a result, not an error.
\<close>

theorem invalid_override_ignored:
  "(m \<notin> set (map fst category_keywords) \<longrightarrow>
      categorize cz text (Some m) = categorize cz text None)
   \<and> (p \<notin> set [''High'', ''Medium'', ''Low''] \<longrightarrow>
      determine_priority an text (Some p) = determine_priority an text None
    \<and> analyze_complaint an text (Some p) = analyze_complaint an text None)
   \<and> (\<exists>r. categorize cz text (Some m) = Inr r)"
proof -
  have a: "categorize cz text (Some m) = categorize cz text None"
    if "m \<notin> set (map fst category_keywords)"
    using that by (simp add: categorize_def)
  have b: "determine_priority an text (Some p) = determine_priority an text None
    \<and> analyze_complaint an text (Some p) = analyze_complaint an text None"
    if "p \<notin> set [''High'', ''Medium'', ''Low'']"
    using that by (simp add: determine_priority_def analyze_complaint_def)
  have c: "\<exists>r. categorize cz text (Some m) = Inr r"
    using categorize_returns [of cz "text" "Some m"] by blast
  from a b c show ?thesis by blast
qed

section \<open>Properties of the suggestions\<close>



















section \<open>The categorizer and the analyzer on concrete inputs\<close>

lemma tokens_empty: "preprocess_text example_categorizer '''' = []"
  by code_simp

lemma scores_wifi_hostel:
  "scores_of example_categorizer ''wifi hostel'' =
     [(''IT Issues'', 1), (''Hostel Management'', 1), (''Academics'', 0), (''Administration'', 0),
      (''Library'', 0), (''Sports & Recreation'', 0), (''Other'', 0)]"
  by code_simp

lemma scores_please_help:
  "scores_of example_categorizer ''please help'' =
     [(''IT Issues'', 0), (''Hostel Management'', 0), (''Academics'', 0), (''Administration'', 0),
      (''Library'', 0), (''Sports & Recreation'', 0), (''Other'', 0)]"
  by code_simp

lemma categorize_wifi_hostel:
  "categorize example_categorizer ''wifi hostel'' None = Inr (''IT Issues'', 0.5)"
  by code_simp

lemma categorize_please_help:
  "categorize example_categorizer ''please help'' None = Inr (''Other'', 0.5)"
  by code_simp



lemma priority_please_help:
  "determine_priority example_analyzer ''please help'' None = ''Medium''"
  by code_simp

theorem categorize_confidence_and_manual_witness:
  "''Library'' \<in> set (map fst category_keywords)
   \<and> categorize example_categorizer ''wifi hostel'' (Some ''Library'') = Inr (''Library'', 0.95)
   \<and> categorize example_categorizer '''' (Some ''Library'')
       = categorize example_categorizer ''wifi hostel'' (Some ''Library'')
   \<and> categorize example_categorizer ''wifi hostel'' None = Inr (''IT Issues'', 0.5)
   \<and> (0::real) \<le> 0.5 \<and> (0.5::real) \<le> 0.99"
proof -
  have m: "''Library'' \<in> set (map fst category_keywords)"
    by (simp add: category_names)
  from categorize_confidence_and_manual
    [of example_categorizer "''wifi hostel''" None "''Library''" "''''"] m categorize_wifi_hostel
  show ?thesis by simp
qed

theorem no_match_is_other_witness:
  "scores_of example_categorizer ''please help'' =
     [(''IT Issues'', 0), (''Hostel Management'', 0), (''Academics'', 0), (''Administration'', 0),
      (''Library'', 0), (''Sports & Recreation'', 0), (''Other'', 0)]
   \<and> categorize example_categorizer ''please help'' None = Inr (''Other'', 0.5)
   \<and> preprocess_text example_categorizer '''' = []
   \<and> categorize example_categorizer '''' None = Inr (''Other'', 0.5)"
proof -
  have z: "\<forall>e\<in>set (scores_of example_categorizer ''please help''). snd e = 0"
    unfolding scores_please_help by simp
  from no_match_is_other [of example_categorizer "''please help''"] z
  have a: "categorize example_categorizer ''please help'' None = Inr (''Other'', 0.5)"
    by blast
  from no_match_is_other [of example_categorizer "''''"] tokens_empty
  have b: "categorize example_categorizer '''' None = Inr (''Other'', 0.5)"
    by blast
  from a b scores_please_help tokens_empty show ?thesis by blast
qed

theorem best_category_first_maximal_witness:
  "score_of example_categorizer ''wifi hostel'' ''IT Issues'' = 1
   \<and> score_of example_categorizer ''wifi hostel'' ''Hostel Management'' = 1
   \<and> categorize example_categorizer ''wifi hostel'' None = Inr (''IT Issues'', 0.5)
   \<and> (\<exists>post. [''IT Issues'', ''Hostel Management'', ''Academics'', ''Administration'', ''Library'',
          ''Sports & Recreation'', ''Other''] = [] @ ''IT Issues'' # post)"
proof -
  have s: "score_of example_categorizer ''wifi hostel'' ''IT Issues'' = 1"
    "score_of example_categorizer ''wifi hostel'' ''Hostel Management'' = 1"
    unfolding score_of_def scores_wifi_hostel by (simp_all add: dict_get_def)
  have h: "\<exists>e\<in>set (scores_of example_categorizer ''wifi hostel''). 0 < snd e"
    unfolding scores_wifi_hostel by simp
  from best_category_first_maximal [OF h] obtain best conf pre post where
    r: "categorize example_categorizer ''wifi hostel'' None = Inr (best, conf)"
    and sp: "[''IT Issues'', ''Hostel Management'', ''Academics'', ''Administration'', ''Library'',
        ''Sports & Recreation'', ''Other''] = pre @ best # post"
    and lt: "\<forall>c\<in>set pre. score_of example_categorizer ''wifi hostel'' c
        < score_of example_categorizer ''wifi hostel'' best"
    by blast
  from r categorize_wifi_hostel have best: "best = ''IT Issues''" by simp
  have "pre = []"
  proof (cases pre)
    case Nil
    then show ?thesis .
  next
    case (Cons p ps)
    with sp have "p = ''IT Issues''" by simp
    with Cons lt best show ?thesis by simp
  qed
  with sp best have "[''IT Issues'', ''Hostel Management'', ''Academics'', ''Administration'', ''Library'',
          ''Sports & Recreation'', ''Other''] = [] @ ''IT Issues'' # post"
    by simp
  with s categorize_wifi_hostel show ?thesis by blast
qed

theorem invalid_override_ignored_witness:
  "''Parking'' \<notin> set (map fst category_keywords)
   \<and> ''Urgent'' \<notin> set [''High'', ''Medium'', ''Low'']
   \<and> categorize example_categorizer ''please help'' (Some ''Parking'') = Inr (''Other'', 0.5)
   \<and> determine_priority example_analyzer ''please help'' (Some ''Urgent'') = ''Medium''
   \<and> analyze_complaint example_analyzer ''please help'' (Some ''Urgent'')
       = analyze_complaint example_analyzer ''please help'' None"
proof -
  have m: "''Parking'' \<notin> set (map fst category_keywords)"
    by (simp add: category_names)
  have p: "''Urgent'' \<notin> set [''High'', ''Medium'', ''Low'']"
    by simp
  from invalid_override_ignored
    [of "''Parking''" example_categorizer "''please help''" "''Urgent''" example_analyzer]
    m p categorize_please_help priority_please_help
  show ?thesis by simp
qed



text \<open>
  The word boundary sees a letter beyond ASCII: after e-acute (\<open>0xE9\<close>) the keyword does not
  start a word, after the copyright sign (\<open>0xA9\<close>) it does.
\<close>

lemma urgent_keyword_after_latin1:
  "detect_urgent_keywords (CHR 0xE9 # ''help'') = 0"
  "detect_urgent_keywords (CHR 0xA9 # ''help'') = 1"
  by code_simp+

end
